theory Spec2Isabelle
  imports Main
begin

section \<open>Data model\<close>

text \<open>
  The client of the identity provider: \<open>Authenticate\<close>, the two factor protocols
  (\<open>pushFactor.perform\<close>, \<open>inputFactor.perform\<close>), \<open>Authorize\<close>, \<open>Session\<close> and the
  diagnostic hooks \<open>pre\<close> and \<open>post\<close>. Bodies are byte strings. An operation returns a
  value, returns an error, or panics.
\<close>

type_synonym bytes = string
type_synonym SessionToken = string
type_synonym SessionID = string

text \<open>
  Errors by origin: \<open>ContextCanceled\<close> and \<open>TransportError\<close> come out of
  \<open>httpClient.Do\<close>, \<open>URLError\<close> out of \<open>url.Parse\<close> and \<open>http.NewRequest\<close>, \<open>JSONError\<close>
  out of \<open>encoding/json\<close>, \<open>DumpError\<close> out of \<open>httputil\<close>, \<open>HandlerError\<close> out of the MFA
  handler. \<open>ErrorsNew m\<close> is \<open>errors.New(m)\<close> (and \<open>fmt.Errorf\<close> without \<open>%w\<close>);
  \<open>Errorf m e\<close> is \<open>fmt.Errorf(m + ": %w", e)\<close>.
\<close>

datatype error =
    ContextCanceled
  | TransportError string
  | URLError string
  | JSONError string
  | DumpError string
  | HandlerError string
  | ErrorsNew string
  | Errorf string error

text \<open>\<open>Panic\<close> is a run-time panic (a method call on a nil interface), not a returned error.\<close>

datatype 'a outcome = Return 'a | Fail error | Panic

text \<open>The value a \<open>map[string]interface{}\<close> holds after \<open>json.Unmarshal\<close> (\<open>JNull\<close>: the nil map).\<close>

datatype json =
    JNull
  | JBool bool
  | JNumber int
  | JString string
  | JArray "json list"
  | JObject "(string \<times> json) list"

text \<open>
  \<open>Session\<close> (the nested \<open>Idp\<close> and \<open>_links\<close> structures, which no operation reads, are
  left out; times are kept as their text).
\<close>

record Session =
  ID :: string
  UserID :: string
  Login :: string
  CreatedAt :: string
  ExpiresAt :: string
  Status :: string
  LastPasswordVerification :: string
  LastFactorVerification :: string
  Amr :: "string list"
  MfaActive :: bool

text \<open>\<open>factor\<close>, and the two implementations of the interface \<open>Factor\<close>.\<close>

record factor =
  ident :: string
  provider :: string
  factorType :: string

datatype Factor = pushFactor factor | inputFactor factor

fun Factor_ID :: "Factor \<Rightarrow> string" where
  "Factor_ID (pushFactor f) = ident f"
| "Factor_ID (inputFactor f) = ident f"

text \<open>
  The part of \<open>oktaUserAuthn\<close> the operations read (\<open>Embedded.Factor\<close>, and the
  \<open>Embedded\<close> and \<open>Profile\<close> of a factor, are decoded and never read).
\<close>

record oktaUserAuthnFactor =
  ID :: string
  FactorType :: string
  Provider :: string

record oktaUserAuthnEmbedded =
  Factors :: "oktaUserAuthnFactor list"

record oktaUserAuthn =
  StateToken :: string
  SessionToken :: string
  ExpiresAt :: string
  Status :: string
  Embedded :: oktaUserAuthnEmbedded
  FactorResult :: string

definition oktaUserAuthnFactor_factor :: "oktaUserAuthnFactor \<Rightarrow> Factor" where
  "oktaUserAuthnFactor_factor x =
     (if FactorType x = ''push''
      then pushFactor \<lparr>ident = ID x, provider = Provider x, factorType = FactorType x\<rparr>
      else inputFactor \<lparr>ident = ID x, provider = Provider x, factorType = FactorType x\<rparr>)"

definition oktaUserAuthnEmbedded_factors :: "oktaUserAuthnEmbedded \<Rightarrow> Factor list" where
  "oktaUserAuthnEmbedded_factors ouae = map oktaUserAuthnFactor_factor (Factors ouae)"

text \<open>
  \<open>Dance\<close>. The transport \<open>httpClient\<close> is the \<open>network\<close> below; \<open>logger\<close> says whether a
  sink was supplied (\<open>False\<close>: nil).
\<close>

record Dance =
  appID :: string
  oktaDomain :: string
  clientID :: string
  logger :: bool
  prettyJSON :: bool

text \<open>
  A request carries the context it was given: \<open>http.NewRequest\<close> gives
  \<open>context.Background()\<close>, \<open>req.WithContext(ctx)\<close> the caller's.
\<close>

datatype Context = Background | Caller

record Cookie =
  Name :: string
  Value :: string

record request =
  httpMethod :: string
  url :: string
  header :: "(string \<times> string) list"
  reqCookies :: "Cookie list"
  reqBody :: "bytes option"
  contentLength :: int
  ctx :: Context

text \<open>
  A response as the transport delivers it; \<open>resCookies\<close> is what \<open>res.Cookies()\<close> returns, in
  the order of the \<open>Set-Cookie\<close> headers. The body of a delivered response is never nil and
  is read in full.
\<close>

record response =
  statusCode :: int
  resCookies :: "Cookie list"
  resBody :: bytes

section \<open>What the program calls and does not define\<close>

text \<open>
  The library functions the source calls, taken as parameters. A function of Go that returns
  \<open>(v, err)\<close> returns a pair here; \<open>json.Unmarshal(b, &v)\<close> returns the value \<open>v\<close> holds after
  the call (started from the zero value, or from the empty map) and the error.
\<close>

record golib =
  urlParse :: "string \<Rightarrow> error option"
  urlString :: "string \<Rightarrow> (string \<times> string) list \<Rightarrow> string"
  jsonMarshal :: "(string \<times> string) list \<Rightarrow> bytes \<times> error option"
  jsonMarshalIndent :: "json \<Rightarrow> bytes \<times> error option"
  jsonUnmarshalMap :: "bytes \<Rightarrow> json \<times> error option"
  jsonUnmarshalAuthn :: "bytes \<Rightarrow> oktaUserAuthn \<times> error option"
  jsonUnmarshalSession :: "bytes \<Rightarrow> Session \<times> error option"
  dumpRequest :: "request \<Rightarrow> string \<times> error option"
  dumpResponse :: "response \<Rightarrow> string \<times> error option"

text \<open>
  The provider behind the transport: \<open>replies k\<close> answers the \<open>k\<close>-th call of
  \<open>httpClient.Do\<close>. \<open>cancelAt = Some k\<close>: the caller's context is cancelled during the
  \<open>k\<close>-th inter-poll wait (\<open>Some 0\<close>: before the operation starts).
\<close>

record network =
  replies :: "nat \<Rightarrow> error + response"
  cancelAt :: "nat option"

text \<open>
  The MFA handler; \<open>ReadCode k\<close> is its \<open>k\<close>-th invocation. Both return Go's pair; a
  \<open>Factor\<close> may be nil.
\<close>

record Multifactor =
  Select :: "Factor list \<Rightarrow> Factor option \<times> error option"
  ReadCode :: "nat \<Rightarrow> Factor \<Rightarrow> string \<times> error option"

text \<open>
  What an operation leaves behind: the requests handed to the transport, the invocations of
  the handler, the waits completed, the lines given to the logger.
\<close>

record world =
  sent :: "request list"
  selects :: "Factor list list"
  codeReads :: "Factor list"
  sleeps :: nat
  logged :: "(string \<times> string) list"

definition world0 :: world where
  "world0 = \<lparr>sent = [], selects = [], codeReads = [], sleeps = 0, logged = []\<rparr>"

definition NewRequest :: "golib \<Rightarrow> string \<Rightarrow> string \<Rightarrow> bytes option \<Rightarrow> error + request" where
  "NewRequest rt m u body =
     (case urlParse rt u of
        Some e \<Rightarrow> Inl e
      | None \<Rightarrow> Inr \<lparr>httpMethod = m, url = u, header = [], reqCookies = [], reqBody = body,
                     contentLength = (case body of None \<Rightarrow> 0 | Some b \<Rightarrow> int (length b)),
                     ctx = Background\<rparr>)"

definition ctxDone :: "network \<Rightarrow> world \<Rightarrow> bool" where
  "ctxDone net w = (case cancelAt net of None \<Rightarrow> False | Some k \<Rightarrow> k \<le> sleeps w)"

text \<open>\<open>httpClient.Do\<close>: a request whose context is done fails with the context's error.\<close>

definition Do :: "network \<Rightarrow> request \<Rightarrow> world \<Rightarrow> (error + response) \<times> world" where
  "Do net req w =
     (if ctx req = Caller \<and> ctxDone net w then Inl ContextCanceled
      else replies net (length (sent w)),
      w\<lparr>sent := sent w @ [req]\<rparr>)"

section \<open>The diagnostic hooks\<close>

text \<open>
  \<open>prettyRequest\<close> and \<open>prettyResponse\<close> are the first blocks of \<open>pre\<close> and \<open>post\<close>, run
  when the pretty-JSON option is on (and the request has a body): the body is decoded into
  a map and the map is encoded again, indented. The error of \<open>json.Unmarshal\<close> is
  overwritten by that of \<open>json.MarshalIndent\<close>. When \<open>MarshalIndent\<close> fails the hook
  returns, and the body, which has been read, is not put back. The callers drop what the
  hooks return.
\<close>

definition prettyRequest :: "golib \<Rightarrow> Dance \<Rightarrow> request \<Rightarrow> request \<times> error option" where
  "prettyRequest rt d req =
     (if \<not> prettyJSON d then (req, None)
      else
        (case reqBody req of
           None \<Rightarrow> (req, None)
         | Some body \<Rightarrow>
             let s = fst (jsonUnmarshalMap rt body);
                 out = jsonMarshalIndent rt s
             in (case snd out of
                   Some e \<Rightarrow> (req\<lparr>reqBody := Some []\<rparr>, Some e)
                 | None \<Rightarrow> (req\<lparr>reqBody := Some (fst out),
                                 contentLength := int (length (fst out))\<rparr>, None))))"

definition pre :: "golib \<Rightarrow> Dance \<Rightarrow> string \<Rightarrow> request \<Rightarrow> world \<Rightarrow> request \<times> world \<times> error option" where
  "pre rt d name req w =
     (let p = prettyRequest rt d req
      in case snd p of
           Some e \<Rightarrow> (fst p, w, Some e)
         | None \<Rightarrow>
             if \<not> logger d then (fst p, w, None)
             else (case snd (dumpRequest rt (fst p)) of
                     Some e \<Rightarrow> (fst p, w, Some e)
                   | None \<Rightarrow> (fst p, w\<lparr>logged := logged w @ [(name, fst (dumpRequest rt (fst p)))]\<rparr>, None)))"

definition prettyResponse :: "golib \<Rightarrow> Dance \<Rightarrow> response \<Rightarrow> response \<times> error option" where
  "prettyResponse rt d res =
     (if \<not> prettyJSON d then (res, None)
      else
        let s = fst (jsonUnmarshalMap rt (resBody res));
            out = jsonMarshalIndent rt s
        in (case snd out of
              Some e \<Rightarrow> (res\<lparr>resBody := []\<rparr>, Some e)
            | None \<Rightarrow> (res\<lparr>resBody := fst out\<rparr>, None)))"

definition post :: "golib \<Rightarrow> Dance \<Rightarrow> string \<Rightarrow> response \<Rightarrow> world \<Rightarrow> response \<times> world \<times> error option" where
  "post rt d name res w =
     (let p = prettyResponse rt d res
      in case snd p of
           Some e \<Rightarrow> (fst p, w, Some e)
         | None \<Rightarrow>
             if \<not> logger d then (fst p, w, None)
             else (case snd (dumpResponse rt (fst p)) of
                     Some e \<Rightarrow> (fst p, w, Some e)
                   | None \<Rightarrow> (fst p, w\<lparr>logged := logged w @ [(name, fst (dumpResponse rt (fst p)))]\<rparr>, None)))"

section \<open>Authorize and Session\<close>

fun sidLoop :: "string \<Rightarrow> Cookie list \<Rightarrow> string" where
  "sidLoop sid [] = sid"
| "sidLoop sid (c # cs) = sidLoop (if Name c = ''sid'' then Value c else sid) cs"

definition authorizeURL :: "Dance \<Rightarrow> string" where
  "authorizeURL d = ''https://'' @ oktaDomain d @ ''/oauth2/v1/authorize''"

definition authorizeQuery :: "Dance \<Rightarrow> SessionToken \<Rightarrow> (string \<times> string) list" where
  "authorizeQuery d sessionToken =
     [(''client_id'', clientID d),
      (''redirect_uri'', ''https://epithet.io/okta-callback''),
      (''sessionToken'', sessionToken),
      (''prompt'', ''none''),
      (''response_type'', ''id_token''),
      (''scope'', ''openid'')]"

definition Authorize :: "golib \<Rightarrow> network \<Rightarrow> Dance \<Rightarrow> Context \<Rightarrow> SessionToken \<Rightarrow> world \<Rightarrow> SessionID outcome \<times> world" where
  "Authorize rt net d c sessionToken w =
     (case urlParse rt (authorizeURL d) of
        Some e \<Rightarrow> (Fail e, w)
      | None \<Rightarrow>
          (case NewRequest rt ''GET'' (urlString rt (authorizeURL d) (authorizeQuery d sessionToken)) None of
             Inl e \<Rightarrow> (Fail e, w)
           | Inr req0 \<Rightarrow>
               let req = req0\<lparr>header := [(''Accept'', ''application/json'')]\<rparr>;
                   h = pre rt d ''Authorize'' req w;
                   r = Do net ((fst h)\<lparr>ctx := c\<rparr>) (fst (snd h))
               in (case fst r of
                     Inl e \<Rightarrow> (Fail e, snd r)
                   | Inr res0 \<Rightarrow>
                       let k = post rt d ''Authorize'' res0 (snd r);
                           res = fst k
                       in if statusCode res \<ge> 400
                          then (Fail (ErrorsNew (resBody res)), fst (snd k))
                          else (Return (sidLoop [] (resCookies res)), fst (snd k)))))"

definition sessionURL :: "Dance \<Rightarrow> string" where
  "sessionURL d = ''https://'' @ oktaDomain d @ ''/api/v1/sessions/me''"

definition Session :: "golib \<Rightarrow> network \<Rightarrow> Dance \<Rightarrow> Context \<Rightarrow> SessionID \<Rightarrow> world \<Rightarrow> Session outcome \<times> world" where
  "Session rt net d c sessionID w =
     (case NewRequest rt ''GET'' (sessionURL d) None of
        Inl e \<Rightarrow> (Fail e, w)
      | Inr req0 \<Rightarrow>
          let req = req0\<lparr>reqCookies := reqCookies req0 @ [\<lparr>Name = ''sid'', Value = sessionID\<rparr>]\<rparr>;
              h = pre rt d ''Session'' req w;
              r = Do net ((fst h)\<lparr>ctx := c\<rparr>) (fst (snd h))
          in (case fst r of
                Inl e \<Rightarrow> (Fail e, snd r)
              | Inr res0 \<Rightarrow>
                  let k = post rt d ''Session'' res0 (snd r);
                      body = resBody (fst k);
                      u = jsonUnmarshalSession rt body
                  in (case snd u of
                        Some e \<Rightarrow> (Fail e, fst (snd k))
                      | None \<Rightarrow> (Return (fst u), fst (snd k)))))"

section \<open>The factor protocols\<close>

definition verifyURL :: "Dance \<Rightarrow> string \<Rightarrow> string" where
  "verifyURL d fid = ''https://'' @ oktaDomain d @ ''/api/v1/authn/factors/'' @ fid @ ''/verify''"

text \<open>
  One pass through the body of a polling loop either returns (\<open>Inr\<close>) or goes round again
  with the state token of the response (\<open>Inl\<close>), after the wait. \<open>verifyExchange\<close> is the part
  the two loops have in common, from the headers to the wait; the error of
  \<open>json.Unmarshal\<close> is not looked at there.
\<close>

definition verifyExchange :: "golib \<Rightarrow> network \<Rightarrow> Dance \<Rightarrow> request \<Rightarrow> bytes \<Rightarrow> world \<Rightarrow> (string + SessionToken outcome) \<times> world" where
  "verifyExchange rt net d req0 buf w =
     (let req = req0\<lparr>header := header req0 @ [(''Content-type'', ''application/json''),
                                                 (''Accept'', ''application/json'')],
                     reqBody := Some buf\<rparr>;
          h = pre rt d ''performMFA'' req w;
          r = Do net (fst h) (fst (snd h))
      in (case fst r of
            Inl e \<Rightarrow> (Inr (Fail e), snd r)
          | Inr res0 \<Rightarrow>
              let k = post rt d ''performMFA'' res0 (snd r);
                  buf' = resBody (fst k);
                  auth = fst (jsonUnmarshalAuthn rt buf');
                  w' = fst (snd k)
              in if Status auth = ''SUCCESS'' then (Inr (Return (SessionToken auth)), w')
                 else if Status auth \<noteq> ''MFA_CHALLENGE'' then (Inr (Fail (ErrorsNew buf')), w')
                 else (Inl (StateToken auth), w'\<lparr>sleeps := Suc (sleeps w')\<rparr>)))"

definition pushFactor_poll :: "golib \<Rightarrow> network \<Rightarrow> Dance \<Rightarrow> factor \<Rightarrow> string \<Rightarrow> world \<Rightarrow> (string + SessionToken outcome) \<times> world" where
  "pushFactor_poll rt net d f stateToken w =
     (case NewRequest rt ''POST'' (verifyURL d (ident f)) None of
        Inl e \<Rightarrow> (Inr (Fail e), w)
      | Inr req \<Rightarrow>
          let m = jsonMarshal rt [(''stateToken'', stateToken)]
          in (case snd m of
                Some e \<Rightarrow> (Inr (Fail e), w)
              | None \<Rightarrow> verifyExchange rt net d req (fst m) w))"

definition inputFactor_poll :: "golib \<Rightarrow> network \<Rightarrow> Dance \<Rightarrow> factor \<Rightarrow> Multifactor option \<Rightarrow> string \<Rightarrow> world \<Rightarrow> (string + SessionToken outcome) \<times> world" where
  "inputFactor_poll rt net d f mfa stateToken w =
     (case NewRequest rt ''POST'' (verifyURL d (ident f)) None of
        Inl e \<Rightarrow> (Inr (Fail e), w)
      | Inr req \<Rightarrow>
          (case mfa of
             None \<Rightarrow> (Inr Panic, w)
           | Some m \<Rightarrow>
               let rc = ReadCode m (length (codeReads w)) (inputFactor f);
                   w1 = w\<lparr>codeReads := codeReads w @ [inputFactor f]\<rparr>
               in (case snd rc of
                     Some e \<Rightarrow> (Inr (Fail (Errorf ''error reading MFA input'' e)), w1)
                   | None \<Rightarrow>
                       let j = jsonMarshal rt [(''stateToken'', stateToken), (''passCode'', fst rc)]
                       in (case snd j of
                             Some e \<Rightarrow> (Inr (Fail e), w1)
                           | None \<Rightarrow> verifyExchange rt net d req (fst j) w1))))"

text \<open>
  The loops have no bound of their own: the number argument is the number of passes allowed,
  and \<open>None\<close> says that they were not enough.
\<close>

fun pushFactor_perform :: "golib \<Rightarrow> network \<Rightarrow> Dance \<Rightarrow> factor \<Rightarrow> nat \<Rightarrow> string \<Rightarrow> world \<Rightarrow> (SessionToken outcome \<times> world) option" where
  "pushFactor_perform rt net d f 0 stateToken w = None"
| "pushFactor_perform rt net d f (Suc n) stateToken w =
     (case pushFactor_poll rt net d f stateToken w of
        (Inr out, w') \<Rightarrow> Some (out, w')
      | (Inl stateToken', w') \<Rightarrow> pushFactor_perform rt net d f n stateToken' w')"

fun inputFactor_perform :: "golib \<Rightarrow> network \<Rightarrow> Dance \<Rightarrow> factor \<Rightarrow> Multifactor option \<Rightarrow> nat \<Rightarrow> string \<Rightarrow> world \<Rightarrow> (SessionToken outcome \<times> world) option" where
  "inputFactor_perform rt net d f mfa 0 stateToken w = None"
| "inputFactor_perform rt net d f mfa (Suc n) stateToken w =
     (case inputFactor_poll rt net d f mfa stateToken w of
        (Inr out, w') \<Rightarrow> Some (out, w')
      | (Inl stateToken', w') \<Rightarrow> inputFactor_perform rt net d f mfa n stateToken' w')"

fun perform :: "golib \<Rightarrow> network \<Rightarrow> Dance \<Rightarrow> Factor \<Rightarrow> Multifactor option \<Rightarrow> nat \<Rightarrow> string \<Rightarrow> world \<Rightarrow> (SessionToken outcome \<times> world) option" where
  "perform rt net d (pushFactor f) mfa n stateToken w = pushFactor_perform rt net d f n stateToken w"
| "perform rt net d (inputFactor f) mfa n stateToken w = inputFactor_perform rt net d f mfa n stateToken w"

section \<open>Authenticate\<close>

definition authnURL :: "Dance \<Rightarrow> string" where
  "authnURL d = ''https://'' @ oktaDomain d @ ''/api/v1/authn''"

text \<open>
  The choice of the factor when the status is \<open>MFA_REQUIRED\<close>: the branches on
  \<open>len(ar.Embedded.Factors)\<close>, in the order of the source. \<open>mfa.Select\<close> on a nil handler
  panics. The tests \<open>factor == nil\<close> that follow the first one cannot succeed, and have no
  branch here.
\<close>

definition chooseFactor :: "Multifactor option \<Rightarrow> oktaUserAuthn \<Rightarrow> world \<Rightarrow> Factor outcome \<times> world" where
  "chooseFactor mfa ar w =
     (case Factors (Embedded ar) of
        [x] \<Rightarrow> (Return (oktaUserAuthnFactor_factor x), w)
      | [] \<Rightarrow> (Fail (ErrorsNew ''MFA needed but no factoirs available''), w)
      | _ \<Rightarrow>
          let factors = oktaUserAuthnEmbedded_factors (Embedded ar)
          in (case mfa of
                None \<Rightarrow> (Panic, w)
              | Some m \<Rightarrow>
                  let sel = Select m factors;
                      w1 = w\<lparr>selects := selects w @ [factors]\<rparr>
                  in (case snd sel of
                        Some e \<Rightarrow> (Fail (Errorf ''error selecting MFA factor'' e), w1)
                      | None \<Rightarrow>
                          (case fst sel of
                             None \<Rightarrow> (Fail (ErrorsNew ''no MFA was factor selected''), w1)
                           | Some f \<Rightarrow> (Return f, w1)))))"

definition Authenticate :: "golib \<Rightarrow> network \<Rightarrow> Dance \<Rightarrow> nat \<Rightarrow> Context \<Rightarrow> string \<Rightarrow> string \<Rightarrow> Multifactor option \<Rightarrow> world \<Rightarrow> (SessionToken outcome \<times> world) option" where
  "Authenticate rt net d n c username password mfa w =
     (let body = jsonMarshal rt [(''username'', username), (''password'', password)]
      in case snd body of
           Some e \<Rightarrow> Some (Fail e, w)
         | None \<Rightarrow>
             (case NewRequest rt ''POST'' (authnURL d) (Some (fst body)) of
                Inl e \<Rightarrow> Some (Fail e, w)
              | Inr req0 \<Rightarrow>
                  let req = req0\<lparr>header := [(''Content-type'', ''application/json''),
                                               (''Accept'', ''application/json'')],
                                  ctx := c\<rparr>;
                      h = pre rt d ''Authenticate'' req w;
                      r = Do net (fst h) (fst (snd h))
                  in (case fst r of
                        Inl e \<Rightarrow> Some (Fail e, snd r)
                      | Inr res0 \<Rightarrow>
                          let k = post rt d ''Authenticate'' res0 (snd r);
                              rb = resBody (fst k);
                              u = jsonUnmarshalAuthn rt rb;
                              ar = fst u;
                              w' = fst (snd k)
                          in (case snd u of
                                Some e \<Rightarrow> Some (Fail e, w')
                              | None \<Rightarrow>
                                  if Status ar = ''MFA_REQUIRED'' then
                                    (case chooseFactor mfa ar w' of
                                       (Return factor, w'') \<Rightarrow> perform rt net d factor mfa n (StateToken ar) w''
                                     | (Fail e, w'') \<Rightarrow> Some (Fail e, w'')
                                     | (Panic, w'') \<Rightarrow> Some (Panic, w''))
                                  else if Status ar \<noteq> ''SUCCESS''
                                  then Some (Fail (ErrorsNew (''Status: '' @ Status ar)), w')
                                  else Some (Return (SessionToken ar), w')))))"

section \<open>Notions used in the statements\<close>

text \<open>
  \<open>seenBody\<close> is the body of a response as \<open>post\<close> hands it on: the body the provider sent
  when the pretty-JSON option is off. \<open>seenAuthn\<close> is the authentication state an operation
  reads off a response: that body decoded, the error of the decoder apart. \<open>verifyRequest\<close> is the
  request a polling loop hands to the transport for a marshalled body \<open>buf\<close>, as
  \<open>http.NewRequest\<close>, the two headers, the body and \<open>pre\<close> leave it.
\<close>

definition seenBody :: "golib \<Rightarrow> Dance \<Rightarrow> response \<Rightarrow> bytes" where
  "seenBody rt d res = resBody (fst (prettyResponse rt d res))"

definition seenAuthn :: "golib \<Rightarrow> Dance \<Rightarrow> response \<Rightarrow> oktaUserAuthn" where
  "seenAuthn rt d res = fst (jsonUnmarshalAuthn rt (resBody (fst (prettyResponse rt d res))))"

definition verifyRequest :: "golib \<Rightarrow> Dance \<Rightarrow> factor \<Rightarrow> bytes \<Rightarrow> request" where
  "verifyRequest rt d f buf =
     fst (prettyRequest rt d
       \<lparr>httpMethod = ''POST'', url = verifyURL d (ident f),
        header = [(''Content-type'', ''application/json''), (''Accept'', ''application/json'')],
        reqCookies = [], reqBody = Some buf, contentLength = 0, ctx = Background\<rparr>)"

section \<open>A library and a provider for the examples\<close>

text \<open>
  \<open>demoLib\<close> stands in for the library in the closed examples below. As
  \<open>oktaUserAuthn\<close> it decodes the bodies listed in \<open>demoAuthnTable\<close>, as a \<open>Session\<close> the
  body \<open>bodySession\<close>, as a map \<open>{}\<close> and \<open>null\<close>; every other body is invalid JSON to it, and
  the examples give it no other JSON. A map is written out as its members \<open>key=value;\<close>
  (no provider of the examples reads a request), the empty map as \<open>{}\<close>.
\<close>

definition authn :: "string \<Rightarrow> string \<Rightarrow> string \<Rightarrow> oktaUserAuthnFactor list \<Rightarrow> oktaUserAuthn" where
  "authn status stateToken sessionToken fs =
     \<lparr>StateToken = stateToken, SessionToken = sessionToken, ExpiresAt = [], Status = status,
      Embedded = \<lparr>Factors = fs\<rparr>, FactorResult = []\<rparr>"

definition bodyChallenge1 :: bytes where
  \<open>bodyChallenge1 = ''{"status":"MFA_CHALLENGE","stateToken":"st1"}''\<close>

definition bodyChallenge2 :: bytes where
  \<open>bodyChallenge2 = ''{"status":"MFA_CHALLENGE","stateToken":"st2"}''\<close>

definition bodySuccess :: bytes where
  \<open>bodySuccess = ''{"status":"SUCCESS","sessionToken":"tok"}''\<close>

definition bodyLocked :: bytes where
  \<open>bodyLocked = ''{"status":"LOCKED_OUT"}''\<close>

definition bodyNoFactors :: bytes where
  \<open>bodyNoFactors = ''{"status":"MFA_REQUIRED","stateToken":"st0","_embedded":{"factors":[]}}''\<close>

definition bodyOnePush :: bytes where
  \<open>bodyOnePush = ''{"status":"MFA_REQUIRED","stateToken":"st0","_embedded":{"factors":[{"id":"f1","factorType":"push","provider":"OKTA"}]}}''\<close>

definition bodyTwoFactors :: bytes where
  \<open>bodyTwoFactors = ''{"status":"MFA_REQUIRED","stateToken":"st0","_embedded":{"factors":[{"id":"f1","factorType":"push","provider":"OKTA"},{"id":"f2","factorType":"token:software:totp","provider":"GOOGLE"}]}}''\<close>

text \<open>
  A body that does not fit \<open>oktaUserAuthn\<close>: \<open>expiresAt\<close> is a string field and the value is
  a number. \<open>json.Unmarshal\<close> skips that field, fills in the others and returns an
  \<open>UnmarshalTypeError\<close>.
\<close>

definition bodyMismatch :: bytes where
  \<open>bodyMismatch = ''{"status":"SUCCESS","sessionToken":"tok","expiresAt":0}''\<close>

definition pushF1 :: oktaUserAuthnFactor where
  "pushF1 = \<lparr>ID = ''f1'', FactorType = ''push'', Provider = ''OKTA''\<rparr>"

definition totpF2 :: oktaUserAuthnFactor where
  "totpF2 = \<lparr>ID = ''f2'', FactorType = ''token:software:totp'', Provider = ''GOOGLE''\<rparr>"

definition demoAuthnTable :: "(bytes \<times> oktaUserAuthn \<times> error option) list" where
  "demoAuthnTable =
     [(bodyChallenge1, authn ''MFA_CHALLENGE'' ''st1'' [] [], None),
      (bodyChallenge2, authn ''MFA_CHALLENGE'' ''st2'' [] [], None),
      (bodySuccess, authn ''SUCCESS'' [] ''tok'' [], None),
      (bodyLocked, authn ''LOCKED_OUT'' [] [] [], None),
      (bodyNoFactors, authn ''MFA_REQUIRED'' ''st0'' [] [], None),
      (bodyOnePush, authn ''MFA_REQUIRED'' ''st0'' [] [pushF1], None),
      (bodyTwoFactors, authn ''MFA_REQUIRED'' ''st0'' [] [pushF1, totpF2], None),
      (bodyMismatch, authn ''SUCCESS'' [] ''tok'' [],
         Some (JSONError ''json: cannot unmarshal number into Go struct field oktaUserAuthn.expiresAt of type string''))]"

definition bodySession :: bytes where
  \<open>bodySession = ''{"id":"101","login":"user@example.com","status":"ACTIVE"}''\<close>

definition demoSession :: Session where
  "demoSession = \<lparr>Session.ID = ''101'', UserID = [], Login = ''user@example.com'', CreatedAt = [],
     Session.ExpiresAt = [], Session.Status = ''ACTIVE'', LastPasswordVerification = [],
     LastFactorVerification = [], Amr = [], MfaActive = False\<rparr>"

definition zeroSession :: Session where
  "zeroSession = \<lparr>Session.ID = [], UserID = [], Login = [], CreatedAt = [],
     Session.ExpiresAt = [], Session.Status = [], LastPasswordVerification = [],
     LastFactorVerification = [], Amr = [], MfaActive = False\<rparr>"

definition demoLib :: golib where
  "demoLib =
     \<lparr>urlParse = (\<lambda>u. None),
      urlString = (\<lambda>u q. u),
      jsonMarshal = (\<lambda>m. (concat (map (\<lambda>(k, v). k @ ''='' @ v @ '';'') m), None)),
      jsonMarshalIndent = (\<lambda>j. (if j = JNull then ''null'' else ''{}'', None)),
      jsonUnmarshalMap = (\<lambda>b. if b = ''{}'' then (JObject [], None)
                              else if b = ''null'' then (JNull, None)
                              else (JObject [], Some (JSONError ''invalid character''))),
      jsonUnmarshalAuthn = (\<lambda>b. case map_of demoAuthnTable b of
                                    Some r \<Rightarrow> r
                                  | None \<Rightarrow> (authn [] [] [] [], Some (JSONError ''invalid character''))),
      jsonUnmarshalSession = (\<lambda>b. if b = bodySession then (demoSession, None)
                                  else (zeroSession, Some (JSONError ''invalid character''))),
      dumpRequest = (\<lambda>r. (url r, None)),
      dumpResponse = (\<lambda>r. (resBody r, None))\<rparr>"

definition reply :: "int \<Rightarrow> bytes \<Rightarrow> error + response" where
  "reply code body = Inr \<lparr>statusCode = code, resCookies = [], resBody = body\<rparr>"

definition pushScript :: network where
  "pushScript =
     \<lparr>replies = (\<lambda>k. if k = 0 then reply 200 bodyChallenge1
                      else if k = 1 then reply 200 bodyChallenge2
                      else reply 200 bodySuccess),
      cancelAt = None\<rparr>"

definition demoDance :: Dance where
  "demoDance = \<lparr>appID = [], oktaDomain = ''example.okta.com'', clientID = ''client'', logger = False, prettyJSON = False\<rparr>"

definition demoFactor :: factor where
  "demoFactor = \<lparr>ident = ''f1'', provider = ''OKTA'', factorType = ''push''\<rparr>"

text \<open>A provider that gives the same answer to every call.\<close>

definition always :: "response \<Rightarrow> network" where
  "always res = \<lparr>replies = (\<lambda>k. Inr res), cancelAt = None\<rparr>"

definition prettyDance :: Dance where
  "prettyDance = demoDance\<lparr>logger := True, prettyJSON := True\<rparr>"

definition demoInput :: factor where
  "demoInput = \<lparr>ident = ''f2'', provider = ''GOOGLE'', factorType = ''token:software:totp''\<rparr>"

definition demoHandler :: Multifactor where
  "demoHandler =
     \<lparr>Select = (\<lambda>fs. (case fs of [] \<Rightarrow> None | f # _ \<Rightarrow> Some f, None)),
      ReadCode = (\<lambda>k f. (if k = 0 then ''000000'' else ''123456'', None))\<rparr>"


text \<open>A provider for a login with one push factor, whose caller cancels during the first wait.\<close>

definition cancelScript :: network where
  "cancelScript =
     \<lparr>replies = (\<lambda>k. if k = 0 then reply 200 bodyOnePush
                      else if k = 1 then reply 200 bodyChallenge1
                      else reply 200 bodySuccess),
      cancelAt = Some 1\<rparr>"

text \<open>
  \<open>silentDecoder rt\<close> is the library \<open>rt\<close> with a decoder for \<open>oktaUserAuthn\<close> that leaves the
  same values and reports no error.
\<close>

definition silentDecoder :: "golib \<Rightarrow> golib" where
  "silentDecoder rt = rt\<lparr>jsonUnmarshalAuthn := (\<lambda>b. (fst (jsonUnmarshalAuthn rt b), None))\<rparr>"


section \<open>The hooks and the state\<close>

lemma pre_fst: "fst (pre rt d n req w) = fst (prettyRequest rt d req)"
  by (simp add: pre_def Let_def split: option.splits)

lemma pre_sent: "sent (fst (snd (pre rt d n req w))) = sent w"
  and pre_sleeps: "sleeps (fst (snd (pre rt d n req w))) = sleeps w"
  and pre_selects: "selects (fst (snd (pre rt d n req w))) = selects w"
  and pre_codeReads: "codeReads (fst (snd (pre rt d n req w))) = codeReads w"
  by (simp_all add: pre_def Let_def split: option.splits)

lemma post_fst: "fst (post rt d n res w) = fst (prettyResponse rt d res)"
  by (simp add: post_def Let_def split: option.splits)

lemma post_sent: "sent (fst (snd (post rt d n res w))) = sent w"
  and post_sleeps: "sleeps (fst (snd (post rt d n res w))) = sleeps w"
  and post_selects: "selects (fst (snd (post rt d n res w))) = selects w"
  and post_codeReads: "codeReads (fst (snd (post rt d n res w))) = codeReads w"
  by (simp_all add: post_def Let_def split: option.splits)

lemma prettyResponse_status: "statusCode (fst (prettyResponse rt d res)) = statusCode res"
  and prettyResponse_cookies: "resCookies (fst (prettyResponse rt d res)) = resCookies res"
  by (simp_all add: prettyResponse_def Let_def split: option.splits)

lemma prettyResponse_off: "\<not> prettyJSON d \<Longrightarrow> prettyResponse rt d res = (res, None)"
  by (simp add: prettyResponse_def)

lemma prettyRequest_off: "\<not> prettyJSON d \<Longrightarrow> prettyRequest rt d req = (req, None)"
  by (simp add: prettyRequest_def split: option.splits)

lemma prettyRequest_ctx: "ctx (fst (prettyRequest rt d req)) = ctx req"
  and prettyRequest_url: "url (fst (prettyRequest rt d req)) = url req"
  by (simp_all add: prettyRequest_def Let_def split: option.splits)

lemma ctxDone_pre: "ctxDone net (fst (snd (pre rt d n req w))) = ctxDone net w"
  by (simp add: ctxDone_def pre_sleeps split: option.splits)

lemmas hook_simps = pre_fst pre_sent pre_sleeps pre_selects pre_codeReads post_fst post_sent post_sleeps
  post_selects post_codeReads prettyResponse_status prettyResponse_cookies prettyRequest_ctx ctxDone_pre

lemma Authorize_delivered:
  assumes "urlParse rt (authorizeURL d) = None"
    and "urlParse rt (urlString rt (authorizeURL d) (authorizeQuery d tok)) = None"
    and "\<not> (c = Caller \<and> ctxDone net w)"
    and "replies net (length (sent w)) = Inr res0"
  shows "fst (Authorize rt net d c tok w) =
     (if statusCode res0 \<ge> 400 then Fail (ErrorsNew (resBody (fst (prettyResponse rt d res0))))
      else Return (sidLoop [] (resCookies res0)))"
  using assms
  by (auto simp add: Authorize_def NewRequest_def Let_def Do_def hook_simps)

lemma sidLoop_none: "\<forall>c\<in>set cs. Name c \<noteq> ''sid'' \<Longrightarrow> sidLoop s cs = s"
  by (induction cs arbitrary: s) auto

lemma sidLoop_append: "sidLoop s (xs @ ys) = sidLoop (sidLoop s xs) ys"
  by (induction xs arbitrary: s) auto

lemma sidLoop_last: "Name c = ''sid'' \<Longrightarrow> \<forall>c\<in>set cs2. Name c \<noteq> ''sid'' \<Longrightarrow> sidLoop s (cs1 @ c # cs2) = Value c"
  by (simp add: sidLoop_append sidLoop_none)

lemma verifyExchange_delivered:
  assumes "replies net (length (sent w)) = Inr res" and "ctx req0 = Background"
  shows "fst (verifyExchange rt net d req0 buf w) =
      (if Status (seenAuthn rt d res) = ''SUCCESS'' then Inr (Return (SessionToken (seenAuthn rt d res)))
       else if Status (seenAuthn rt d res) \<noteq> ''MFA_CHALLENGE''
            then Inr (Fail (ErrorsNew (resBody (fst (prettyResponse rt d res)))))
       else Inl (StateToken (seenAuthn rt d res)))"
    and "sent (snd (verifyExchange rt net d req0 buf w)) = sent w @
          [fst (prettyRequest rt d (req0\<lparr>header := header req0 @ [(''Content-type'', ''application/json''),
                                                 (''Accept'', ''application/json'')], reqBody := Some buf\<rparr>))]"
    and "codeReads (snd (verifyExchange rt net d req0 buf w)) = codeReads w"
    and "selects (snd (verifyExchange rt net d req0 buf w)) = selects w"
    and "sleeps (snd (verifyExchange rt net d req0 buf w)) =
           (if Status (seenAuthn rt d res) = ''MFA_CHALLENGE'' then Suc (sleeps w) else sleeps w)"
  using assms
  by (simp_all add: verifyExchange_def Let_def Do_def hook_simps seenAuthn_def)

lemma pushFactor_poll_delivered:
  assumes "urlParse rt (verifyURL d (ident f)) = None"
    and "snd (jsonMarshal rt [(''stateToken'', st)]) = None"
    and "replies net (length (sent w)) = Inr res"
  shows "fst (pushFactor_poll rt net d f st w) =
      (if Status (seenAuthn rt d res) = ''SUCCESS'' then Inr (Return (SessionToken (seenAuthn rt d res)))
       else if Status (seenAuthn rt d res) \<noteq> ''MFA_CHALLENGE''
            then Inr (Fail (ErrorsNew (resBody (fst (prettyResponse rt d res)))))
       else Inl (StateToken (seenAuthn rt d res)))"
    and "sent (snd (pushFactor_poll rt net d f st w)) = sent w @
          [verifyRequest rt d f (fst (jsonMarshal rt [(''stateToken'', st)]))]"
    and "codeReads (snd (pushFactor_poll rt net d f st w)) = codeReads w"
    and "selects (snd (pushFactor_poll rt net d f st w)) = selects w"
    and "sleeps (snd (pushFactor_poll rt net d f st w)) =
           (if Status (seenAuthn rt d res) = ''MFA_CHALLENGE'' then Suc (sleeps w) else sleeps w)"
  using assms
  by (simp_all add: pushFactor_poll_def NewRequest_def Let_def verifyExchange_delivered verifyRequest_def)

section \<open>Push factor: two challenges, then success\<close>

lemma pushFactor_perform_Suc:
  "pushFactor_perform rt net d f (Suc n) st w =
     (case fst (pushFactor_poll rt net d f st w) of
        Inr out \<Rightarrow> Some (out, snd (pushFactor_poll rt net d f st w))
      | Inl st' \<Rightarrow> pushFactor_perform rt net d f n st' (snd (pushFactor_poll rt net d f st w)))"
  by (simp add: split_beta split: sum.splits)

text \<open>
  C1. When the provider answers the verify calls of the push protocol with \<open>MFA_CHALLENGE\<close>,
  \<open>MFA_CHALLENGE\<close>, \<open>SUCCESS\<close>, the protocol makes exactly three verify calls; the body of
  each is the encoding of the map that holds the state token alone; the token sent is the
  initial one and then the one of each challenge response; the handler is never invoked;
  two waits are made; the session token of the third response is returned. Three passes
  of the loop are enough, whatever the number allowed beyond.
\<close>

theorem pushFactor_two_challenges_then_success:
  assumes url: "urlParse rt (verifyURL d (ident f)) = None"
    and m0: "snd (jsonMarshal rt [(''stateToken'', s0)]) = None"
    and m1: "snd (jsonMarshal rt [(''stateToken'', StateToken (seenAuthn rt d r1))]) = None"
    and m2: "snd (jsonMarshal rt [(''stateToken'', StateToken (seenAuthn rt d r2))]) = None"
    and r1: "replies net (length (sent w)) = Inr r1"
    and r2: "replies net (Suc (length (sent w))) = Inr r2"
    and r3: "replies net (Suc (Suc (length (sent w)))) = Inr r3"
    and c1: "Status (seenAuthn rt d r1) = ''MFA_CHALLENGE''"
    and c2: "Status (seenAuthn rt d r2) = ''MFA_CHALLENGE''"
    and c3: "Status (seenAuthn rt d r3) = ''SUCCESS''"
  shows "\<exists>w'. pushFactor_perform rt net d f (Suc (Suc (Suc n))) s0 w
               = Some (Return (SessionToken (seenAuthn rt d r3)), w')
          \<and> sent w' = sent w @
               [verifyRequest rt d f (fst (jsonMarshal rt [(''stateToken'', s0)])),
                verifyRequest rt d f (fst (jsonMarshal rt [(''stateToken'', StateToken (seenAuthn rt d r1))])),
                verifyRequest rt d f (fst (jsonMarshal rt [(''stateToken'', StateToken (seenAuthn rt d r2))]))]
          \<and> codeReads w' = codeReads w \<and> selects w' = selects w
          \<and> sleeps w' = sleeps w + 2"
proof -
  let ?p1 = "pushFactor_poll rt net d f s0 w"
  let ?w1 = "snd ?p1"
  let ?p2 = "pushFactor_poll rt net d f (StateToken (seenAuthn rt d r1)) ?w1"
  let ?w2 = "snd ?p2"
  let ?p3 = "pushFactor_poll rt net d f (StateToken (seenAuthn rt d r2)) ?w2"
  let ?w3 = "snd ?p3"
  note p1 = pushFactor_poll_delivered [OF url m0 r1]
  have f1: "fst ?p1 = Inl (StateToken (seenAuthn rt d r1))"
    using p1(1) c1 by simp
  have r2': "replies net (length (sent ?w1)) = Inr r2"
    using p1(2) r2 by simp
  note p2 = pushFactor_poll_delivered [OF url m1 r2']
  have f2: "fst ?p2 = Inl (StateToken (seenAuthn rt d r2))"
    using p2(1) c2 by simp
  have r3': "replies net (length (sent ?w2)) = Inr r3"
    using p2(2) p1(2) r3 by simp
  note p3 = pushFactor_poll_delivered [OF url m2 r3']
  have f3: "fst ?p3 = Inr (Return (SessionToken (seenAuthn rt d r3)))"
    using p3(1) c3 by simp
  have run: "pushFactor_perform rt net d f (Suc (Suc (Suc n))) s0 w
               = Some (Return (SessionToken (seenAuthn rt d r3)), ?w3)"
    by (simp only: pushFactor_perform_Suc f1 f2 f3 sum.case)
  have s: "sent ?w3 = sent w @
               [verifyRequest rt d f (fst (jsonMarshal rt [(''stateToken'', s0)])),
                verifyRequest rt d f (fst (jsonMarshal rt [(''stateToken'', StateToken (seenAuthn rt d r1))])),
                verifyRequest rt d f (fst (jsonMarshal rt [(''stateToken'', StateToken (seenAuthn rt d r2))]))]"
    using p1(2) p2(2) p3(2) by simp
  have t: "sleeps ?w3 = sleeps w + 2"
    using p1(5) p2(5) p3(5) c1 c2 c3 by simp
  have "codeReads ?w3 = codeReads w" "selects ?w3 = selects w"
    using p1(3,4) p2(3,4) p3(3,4) by simp_all
  with run s t show ?thesis by blast
qed

lemma demo_seen1: "seenAuthn demoLib demoDance \<lparr>statusCode = 200, resCookies = [], resBody = bodyChallenge1\<rparr>
   = authn ''MFA_CHALLENGE'' ''st1'' [] []"
  by (simp add: seenAuthn_def prettyResponse_def demoDance_def demoLib_def demoAuthnTable_def)

lemma demo_seen2: "seenAuthn demoLib demoDance \<lparr>statusCode = 200, resCookies = [], resBody = bodyChallenge2\<rparr>
   = authn ''MFA_CHALLENGE'' ''st2'' [] []"
  by (simp add: seenAuthn_def prettyResponse_def demoDance_def demoLib_def demoAuthnTable_def bodyChallenge1_def bodyChallenge2_def)

lemma demo_seen3: "seenAuthn demoLib demoDance \<lparr>statusCode = 200, resCookies = [], resBody = bodySuccess\<rparr>
   = authn ''SUCCESS'' [] ''tok'' []"
  by (simp add: seenAuthn_def prettyResponse_def demoDance_def demoLib_def demoAuthnTable_def bodyChallenge1_def bodyChallenge2_def bodySuccess_def)

theorem pushFactor_two_challenges_then_success_witness:
  "\<exists>w'. pushFactor_perform demoLib pushScript demoDance demoFactor (Suc (Suc (Suc 0))) ''st0'' world0
               = Some (Return ''tok'', w')
        \<and> map reqBody (sent w') = [Some ''stateToken=st0;'', Some ''stateToken=st1;'', Some ''stateToken=st2;'']
        \<and> map url (sent w') = [''https://example.okta.com/api/v1/authn/factors/f1/verify'',
                                 ''https://example.okta.com/api/v1/authn/factors/f1/verify'',
                                 ''https://example.okta.com/api/v1/authn/factors/f1/verify'']
        \<and> codeReads w' = [] \<and> sleeps w' = 2"
proof -
  let ?r1 = "\<lparr>statusCode = 200, resCookies = [], resBody = bodyChallenge1\<rparr>"
  let ?r2 = "\<lparr>statusCode = 200, resCookies = [], resBody = bodyChallenge2\<rparr>"
  let ?r3 = "\<lparr>statusCode = 200, resCookies = [], resBody = bodySuccess\<rparr>"
  have url: "urlParse demoLib (verifyURL demoDance (ident demoFactor)) = None"
    by (simp add: demoLib_def)
  have m: "\<And>s. snd (jsonMarshal demoLib [(''stateToken'', s)]) = None"
    by (simp add: demoLib_def)
  have r1: "replies pushScript (length (sent world0)) = Inr ?r1"
    and r2: "replies pushScript (Suc (length (sent world0))) = Inr ?r2"
    and r3: "replies pushScript (Suc (Suc (length (sent world0)))) = Inr ?r3"
    by (simp_all add: pushScript_def world0_def reply_def)
  have c1: "Status (seenAuthn demoLib demoDance ?r1) = ''MFA_CHALLENGE''"
    and c2: "Status (seenAuthn demoLib demoDance ?r2) = ''MFA_CHALLENGE''"
    and c3: "Status (seenAuthn demoLib demoDance ?r3) = ''SUCCESS''"
    by (simp_all add: demo_seen1 demo_seen2 demo_seen3 authn_def)
  have b: "\<And>buf. reqBody (verifyRequest demoLib demoDance demoFactor buf) = Some buf"
    by (simp add: verifyRequest_def prettyRequest_def demoDance_def)
  have j: "\<And>s. fst (jsonMarshal demoLib [(''stateToken'', s)]) = ''stateToken='' @ s @ '';''"
    by (simp add: demoLib_def)
  from pushFactor_two_challenges_then_success [OF url m m m r1 r2 r3 c1 c2 c3, of 0 "''st0''"]
  obtain w' where
    run: "pushFactor_perform demoLib pushScript demoDance demoFactor (Suc (Suc (Suc 0))) ''st0'' world0
            = Some (Return (SessionToken (seenAuthn demoLib demoDance ?r3)), w')"
    and s: "sent w' = sent world0 @
               [verifyRequest demoLib demoDance demoFactor (fst (jsonMarshal demoLib [(''stateToken'', ''st0'')])),
                verifyRequest demoLib demoDance demoFactor (fst (jsonMarshal demoLib [(''stateToken'', StateToken (seenAuthn demoLib demoDance ?r1))])),
                verifyRequest demoLib demoDance demoFactor (fst (jsonMarshal demoLib [(''stateToken'', StateToken (seenAuthn demoLib demoDance ?r2))]))]"
    and c: "codeReads w' = codeReads world0" and t: "sleeps w' = sleeps world0 + 2"
    by blast
  have "SessionToken (seenAuthn demoLib demoDance ?r3) = ''tok''"
    by (simp add: demo_seen3 authn_def)
  moreover have "map reqBody (sent w') = [Some ''stateToken=st0;'', Some ''stateToken=st1;'', Some ''stateToken=st2;'']"
    by (simp add: s b j world0_def demo_seen1 demo_seen2 authn_def)
  moreover have "map url (sent w') = [''https://example.okta.com/api/v1/authn/factors/f1/verify'',
                                 ''https://example.okta.com/api/v1/authn/factors/f1/verify'',
                                 ''https://example.okta.com/api/v1/authn/factors/f1/verify'']"
    by (simp add: s world0_def verifyRequest_def prettyRequest_url verifyURL_def demoDance_def demoFactor_def)
  moreover have "codeReads w' = []" "sleeps w' = 2"
    using c t by (simp_all add: world0_def)
  ultimately show ?thesis using run by (intro exI [of _ w']) (simp del: pushFactor_perform.simps)
qed

section \<open>Authorize: the status and the cookie\<close>

lemma seenBody_off: "\<not> prettyJSON d \<Longrightarrow> seenBody rt d res = resBody res"
  by (simp add: seenBody_def prettyResponse_off)

lemma seenBody_status: "seenBody rt d (res\<lparr>statusCode := code\<rparr>) = seenBody rt d res"
  by (simp add: seenBody_def prettyResponse_def Let_def split: option.splits)

lemma Authorize_result:
  assumes "urlParse rt (authorizeURL d) = None"
    and "urlParse rt (urlString rt (authorizeURL d) (authorizeQuery d tok)) = None"
    and "\<not> (c = Caller \<and> ctxDone net w)"
    and "replies net (length (sent w)) = Inr res0"
  shows "fst (Authorize rt net d c tok w) =
     (if statusCode res0 \<ge> 400 then Fail (ErrorsNew (seenBody rt d res0))
      else Return (sidLoop [] (resCookies res0)))"
  using Authorize_delivered [OF assms] by (simp add: seenBody_def)

text \<open>
  C10, amended. When the response to \<open>Authorize\<close> has a status below 400 and carries several
  cookies named \<open>sid\<close>, the identifier returned is the value of the last of them, in the
  order of \<open>res.Cookies()\<close>.
\<close>

theorem Authorize_last_sid:
  assumes "urlParse rt (authorizeURL d) = None"
    and "urlParse rt (urlString rt (authorizeURL d) (authorizeQuery d tok)) = None"
    and "\<not> (c = Caller \<and> ctxDone net w)"
    and "replies net (length (sent w)) = Inr res0"
    and "statusCode res0 < 400"
    and "resCookies res0 = cs1 @ x # cs2"
    and "Name x = ''sid''"
    and "\<forall>y\<in>set cs2. Name y \<noteq> ''sid''"
  shows "fst (Authorize rt net d c tok w) = Return (Value x)"
  using assms(5-8) Authorize_result [OF assms(1-4)] by (simp add: sidLoop_last)

theorem Authorize_last_sid_witness:
  "fst (Authorize demoLib
         (always \<lparr>statusCode = 302,
                  resCookies = [\<lparr>Name = ''sid'', Value = ''first''\<rparr>, \<lparr>Name = ''JSESSIONID'', Value = ''j''\<rparr>,
                                \<lparr>Name = ''sid'', Value = ''second''\<rparr>, \<lparr>Name = ''t'', Value = ''x''\<rparr>],
                  resBody = []\<rparr>)
         demoDance Caller ''tok'' world0) = Return ''second''"
proof -
  let ?res = "\<lparr>statusCode = 302,
                  resCookies = [\<lparr>Name = ''sid'', Value = ''first''\<rparr>, \<lparr>Name = ''JSESSIONID'', Value = ''j''\<rparr>,
                                \<lparr>Name = ''sid'', Value = ''second''\<rparr>, \<lparr>Name = ''t'', Value = ''x''\<rparr>],
                  resBody = []\<rparr>"
  have "fst (Authorize demoLib (always ?res) demoDance Caller ''tok'' world0)
          = Return (Value \<lparr>Name = ''sid'', Value = ''second''\<rparr>)"
    by (rule Authorize_last_sid [where ?cs1.0 = "[\<lparr>Name = ''sid'', Value = ''first''\<rparr>, \<lparr>Name = ''JSESSIONID'', Value = ''j''\<rparr>]"
          and ?cs2.0 = "[\<lparr>Name = ''t'', Value = ''x''\<rparr>]" and ?res0.0 = ?res])
      (simp_all add: demoLib_def always_def ctxDone_def)
  then show ?thesis by simp
qed

text \<open>
  C10 as stated says nothing of the status. At status 400 or more the cookies are not read:
  a 401 response that carries two cookies named \<open>sid\<close> gives an error, not the second value.
\<close>

theorem Authorize_last_sid_counterexample:
  "fst (Authorize demoLib
         (always \<lparr>statusCode = 401,
                  resCookies = [\<lparr>Name = ''sid'', Value = ''first''\<rparr>, \<lparr>Name = ''sid'', Value = ''second''\<rparr>],
                  resBody = ''denied''\<rparr>)
         demoDance Caller ''tok'' world0) = Fail (ErrorsNew ''denied'')"
proof -
  let ?res = "\<lparr>statusCode = 401,
                  resCookies = [\<lparr>Name = ''sid'', Value = ''first''\<rparr>, \<lparr>Name = ''sid'', Value = ''second''\<rparr>],
                  resBody = ''denied''\<rparr>"
  have "fst (Authorize demoLib (always ?res) demoDance Caller ''tok'' world0) =
     (if statusCode ?res \<ge> 400 then Fail (ErrorsNew (seenBody demoLib demoDance ?res))
      else Return (sidLoop [] (resCookies ?res)))"
    by (rule Authorize_result) (simp_all add: demoLib_def always_def ctxDone_def)
  then show ?thesis by (simp add: seenBody_off demoDance_def)
qed

text \<open>
  What \<open>Authorize\<close> makes of a delivered response. At status 400 or more the message of the
  error is the body \<open>Authorize\<close> reads, which is the body the provider sent whenever the
  pretty-JSON option is off. Below 400 the result is the value of the cookie named \<open>sid\<close>
  (the last one of that name), and the empty identifier, with no error, when no cookie has
  that name.
\<close>

lemma Authorize_status_and_sid:
  assumes "urlParse rt (authorizeURL d) = None"
    and "urlParse rt (urlString rt (authorizeURL d) (authorizeQuery d tok)) = None"
    and "\<not> (c = Caller \<and> ctxDone net w)"
    and "replies net (length (sent w)) = Inr res0"
  shows "(400 \<le> statusCode res0 \<longrightarrow>
            fst (Authorize rt net d c tok w) = Fail (ErrorsNew (seenBody rt d res0)))
       \<and> (\<not> prettyJSON d \<longrightarrow> seenBody rt d res0 = resBody res0)
       \<and> (statusCode res0 < 400 \<and> (\<forall>y\<in>set (resCookies res0). Name y \<noteq> ''sid'') \<longrightarrow>
            fst (Authorize rt net d c tok w) = Return [])
       \<and> (\<forall>cs1 x cs2. statusCode res0 < 400 \<and> resCookies res0 = cs1 @ x # cs2 \<and> Name x = ''sid''
              \<and> (\<forall>y\<in>set cs2. Name y \<noteq> ''sid'') \<longrightarrow>
            fst (Authorize rt net d c tok w) = Return (Value x))"
  using Authorize_result [OF assms]
  by (auto simp add: seenBody_off sidLoop_none sidLoop_last)

lemma Authorize_status_and_sid_example:
  "fst (Authorize demoLib (always \<lparr>statusCode = 401, resCookies = [], resBody = ''Unauthorized''\<rparr>)
          demoDance Caller ''tok'' world0) = Fail (ErrorsNew ''Unauthorized'')
   \<and> fst (Authorize demoLib (always \<lparr>statusCode = 200, resCookies = [\<lparr>Name = ''sid'', Value = ''abc123''\<rparr>], resBody = []\<rparr>)
          demoDance Caller ''tok'' world0) = Return ''abc123''
   \<and> fst (Authorize demoLib (always \<lparr>statusCode = 302, resCookies = [\<lparr>Name = ''t'', Value = ''x''\<rparr>], resBody = []\<rparr>)
          demoDance Caller ''tok'' world0) = Return []"
proof -
  have h: "urlParse demoLib (authorizeURL demoDance) = None"
    "urlParse demoLib (urlString demoLib (authorizeURL demoDance) (authorizeQuery demoDance ''tok'')) = None"
    "\<And>r. \<not> (Caller = Caller \<and> ctxDone (always r) world0)"
    "\<And>r. replies (always r) (length (sent world0)) = Inr r"
    by (simp_all add: demoLib_def always_def ctxDone_def)
  have p: "\<not> prettyJSON demoDance" by (simp add: demoDance_def)
  note t = Authorize_status_and_sid [OF h(1) h(2) h(3) h(4)]
  have "fst (Authorize demoLib (always \<lparr>statusCode = 401, resCookies = [], resBody = ''Unauthorized''\<rparr>)
          demoDance Caller ''tok'' world0) = Fail (ErrorsNew ''Unauthorized'')"
    using t [of "\<lparr>statusCode = 401, resCookies = [], resBody = ''Unauthorized''\<rparr>"] p by simp
  moreover have "fst (Authorize demoLib (always \<lparr>statusCode = 200, resCookies = [\<lparr>Name = ''sid'', Value = ''abc123''\<rparr>], resBody = []\<rparr>)
          demoDance Caller ''tok'' world0) = Return (Value \<lparr>Name = ''sid'', Value = ''abc123''\<rparr>)"
    using t [of "\<lparr>statusCode = 200, resCookies = [\<lparr>Name = ''sid'', Value = ''abc123''\<rparr>], resBody = []\<rparr>"]
    by (elim conjE allE [of _ "[]"] allE [of _ "\<lparr>Name = ''sid'', Value = ''abc123''\<rparr>"]) simp
  moreover have "fst (Authorize demoLib (always \<lparr>statusCode = 302, resCookies = [\<lparr>Name = ''t'', Value = ''x''\<rparr>], resBody = []\<rparr>)
          demoDance Caller ''tok'' world0) = Return []"
    using t [of "\<lparr>statusCode = 302, resCookies = [\<lparr>Name = ''t'', Value = ''x''\<rparr>], resBody = []\<rparr>"] by simp
  ultimately show ?thesis by simp
qed

text \<open>
  C7. With the pretty-JSON option on, \<open>Authorize\<close> on a 401 response whose body is
  \<open>Unauthorized\<close> returns an error that says \<open>{}\<close>, where the claim has the message
  contain the body of the response: \<open>post\<close> has overwritten the error of
  \<open>json.Unmarshal\<close> and put the encoding of the map left empty in place of the body.
\<close>

theorem Authorize_pretty_loses_body:
  "400 \<le> statusCode \<lparr>statusCode = 401, resCookies = [], resBody = ''Unauthorized''\<rparr>
   \<and> fst (Authorize demoLib (always \<lparr>statusCode = 401, resCookies = [], resBody = ''Unauthorized''\<rparr>)
          prettyDance Caller ''tok'' world0) = Fail (ErrorsNew ''{}'')"
  by (simp add: Authorize_def NewRequest_def Let_def Do_def pre_def post_def prettyRequest_def prettyResponse_def
      demoLib_def always_def ctxDone_def prettyDance_def demoDance_def world0_def)

section \<open>Session: the status is not read\<close>

text \<open>
  C9. \<open>Session\<close> does not look at the status of the response: whatever the status code,
  when the body (as \<open>post\<close> hands it on; the body sent, when the pretty-JSON option is off)
  decodes, the session decoded from it is returned, with no error.
\<close>

theorem Session_ignores_status:
  assumes "urlParse rt (sessionURL d) = None"
    and "\<not> (c = Caller \<and> ctxDone net w)"
    and "replies net (length (sent w)) = Inr (res0\<lparr>statusCode := code\<rparr>)"
    and "snd (jsonUnmarshalSession rt (seenBody rt d res0)) = None"
  shows "fst (Session rt net d c sid w) = Return (fst (jsonUnmarshalSession rt (seenBody rt d res0)))"
  using assms
  by (simp add: Session_def NewRequest_def Let_def Do_def hook_simps seenBody_def [symmetric] seenBody_status)

theorem Session_ignores_status_witness:
  "fst (Session demoLib (always \<lparr>statusCode = 500, resCookies = [], resBody = bodySession\<rparr>)
         demoDance Caller ''abc123'' world0) = Return demoSession"
proof -
  let ?res = "\<lparr>statusCode = 200, resCookies = [], resBody = bodySession\<rparr>"
  have b: "seenBody demoLib demoDance ?res = bodySession"
    by (simp add: seenBody_off demoDance_def)
  have u: "jsonUnmarshalSession demoLib bodySession = (demoSession, None)"
    by (simp add: demoLib_def)
  have "fst (Session demoLib (always (?res\<lparr>statusCode := 500\<rparr>)) demoDance Caller ''abc123'' world0)
      = Return (fst (jsonUnmarshalSession demoLib (seenBody demoLib demoDance ?res)))"
    by (rule Session_ignores_status) (simp_all add: b u, simp_all add: demoLib_def always_def ctxDone_def)
  then show ?thesis by (simp add: b u)
qed

section \<open>One-time code: a wrong code, then the right one\<close>

lemma inputFactor_poll_delivered:
  assumes "urlParse rt (verifyURL d (ident f)) = None"
    and "ReadCode m (length (codeReads w)) (inputFactor f) = (code, None)"
    and "snd (jsonMarshal rt [(''stateToken'', st), (''passCode'', code)]) = None"
    and "replies net (length (sent w)) = Inr res"
  shows "fst (inputFactor_poll rt net d f (Some m) st w) =
      (if Status (seenAuthn rt d res) = ''SUCCESS'' then Inr (Return (SessionToken (seenAuthn rt d res)))
       else if Status (seenAuthn rt d res) \<noteq> ''MFA_CHALLENGE''
            then Inr (Fail (ErrorsNew (seenBody rt d res)))
       else Inl (StateToken (seenAuthn rt d res)))"
    and "sent (snd (inputFactor_poll rt net d f (Some m) st w)) = sent w @
          [verifyRequest rt d f (fst (jsonMarshal rt [(''stateToken'', st), (''passCode'', code)]))]"
    and "codeReads (snd (inputFactor_poll rt net d f (Some m) st w)) = codeReads w @ [inputFactor f]"
    and "selects (snd (inputFactor_poll rt net d f (Some m) st w)) = selects w"
    and "sleeps (snd (inputFactor_poll rt net d f (Some m) st w)) =
           (if Status (seenAuthn rt d res) = ''MFA_CHALLENGE'' then Suc (sleeps w) else sleeps w)"
  using assms
  by (simp_all add: inputFactor_poll_def NewRequest_def Let_def verifyExchange_delivered verifyRequest_def
      seenBody_def)

lemma inputFactor_perform_Suc:
  "inputFactor_perform rt net d f mfa (Suc n) st w =
     (case fst (inputFactor_poll rt net d f mfa st w) of
        Inr out \<Rightarrow> Some (out, snd (inputFactor_poll rt net d f mfa st w))
      | Inl st' \<Rightarrow> inputFactor_perform rt net d f mfa n st' (snd (inputFactor_poll rt net d f mfa st w)))"
  by (simp add: split_beta split: sum.splits)






section \<open>Authenticate: the primary exchange and the choice of the factor\<close>

lemma Authenticate_delivered:
  assumes "snd (jsonMarshal rt [(''username'', username), (''password'', password)]) = None"
    and "urlParse rt (authnURL d) = None"
    and "\<not> (c = Caller \<and> ctxDone net w)"
    and "replies net (length (sent w)) = Inr res0"
  shows "\<exists>w1 req. sent w1 = sent w @ [req] \<and> url req = authnURL d \<and> ctx req = c
           \<and> selects w1 = selects w \<and> codeReads w1 = codeReads w \<and> sleeps w1 = sleeps w
           \<and> Authenticate rt net d n c username password mfa w =
               (case snd (jsonUnmarshalAuthn rt (seenBody rt d res0)) of
                  Some e \<Rightarrow> Some (Fail e, w1)
                | None \<Rightarrow>
                    if Status (seenAuthn rt d res0) = ''MFA_REQUIRED'' then
                      (case chooseFactor mfa (seenAuthn rt d res0) w1 of
                         (Return factor, w2) \<Rightarrow> perform rt net d factor mfa n (StateToken (seenAuthn rt d res0)) w2
                       | (Fail e, w2) \<Rightarrow> Some (Fail e, w2)
                       | (Panic, w2) \<Rightarrow> Some (Panic, w2))
                    else if Status (seenAuthn rt d res0) \<noteq> ''SUCCESS''
                    then Some (Fail (ErrorsNew (''Status: '' @ Status (seenAuthn rt d res0))), w1)
                    else Some (Return (SessionToken (seenAuthn rt d res0)), w1))"
proof -
  let ?req0 = "\<lparr>httpMethod = ''POST'', url = authnURL d, header = [], reqCookies = [],
                 reqBody = Some (fst (jsonMarshal rt [(''username'', username), (''password'', password)])),
                 contentLength = int (length (fst (jsonMarshal rt [(''username'', username), (''password'', password)]))),
                 ctx = Background\<rparr>"
  let ?req = "?req0\<lparr>header := [(''Content-type'', ''application/json''), (''Accept'', ''application/json'')], ctx := c\<rparr>"
  let ?h = "pre rt d ''Authenticate'' ?req w"
  let ?r = "Do net (fst ?h) (fst (snd ?h))"
  let ?k = "post rt d ''Authenticate'' res0 (snd ?r)"
  let ?w1 = "fst (snd ?k)"
  have d: "fst ?r = Inr res0"
    using assms(3,4) by (simp add: Do_def hook_simps)
  have s: "sent ?w1 = sent w @ [fst ?h]"
    by (simp add: Do_def hook_simps)
  have u: "url (fst ?h) = authnURL d" "ctx (fst ?h) = c"
    by (simp_all add: hook_simps prettyRequest_url)
  have o: "selects ?w1 = selects w" "codeReads ?w1 = codeReads w" "sleeps ?w1 = sleeps w"
    by (simp_all add: Do_def hook_simps)
  have a: "Authenticate rt net d n c username password mfa w =
               (case snd (jsonUnmarshalAuthn rt (seenBody rt d res0)) of
                  Some e \<Rightarrow> Some (Fail e, ?w1)
                | None \<Rightarrow>
                    if Status (seenAuthn rt d res0) = ''MFA_REQUIRED'' then
                      (case chooseFactor mfa (seenAuthn rt d res0) ?w1 of
                         (Return factor, w2) \<Rightarrow> perform rt net d factor mfa n (StateToken (seenAuthn rt d res0)) w2
                       | (Fail e, w2) \<Rightarrow> Some (Fail e, w2)
                       | (Panic, w2) \<Rightarrow> Some (Panic, w2))
                    else if Status (seenAuthn rt d res0) \<noteq> ''SUCCESS''
                    then Some (Fail (ErrorsNew (''Status: '' @ Status (seenAuthn rt d res0))), ?w1)
                    else Some (Return (SessionToken (seenAuthn rt d res0)), ?w1))"
    using assms(1,2) d
    by (simp add: Authenticate_def NewRequest_def Let_def seenBody_def seenAuthn_def post_fst
        split: option.splits prod.splits outcome.splits)
  from s u o a show ?thesis by blast
qed

text \<open>
  C6, amended. When the primary response is read with status \<open>MFA_REQUIRED\<close> and no factor,
  \<open>Authenticate\<close> fails by returning an error: the error of the decoder when it reported
  one, and otherwise a configuration error whose message is \<open>MFA needed but no\<close>, a word,
  \<open>available\<close> (the word that names the factors is left open). The only request made is
  the one to the primary endpoint, none to a verify endpoint, and the handler is not invoked.
\<close>

theorem Authenticate_no_factors:
  assumes "snd (jsonMarshal rt [(''username'', username), (''password'', password)]) = None"
    and "urlParse rt (authnURL d) = None"
    and "\<not> (c = Caller \<and> ctxDone net w)"
    and "replies net (length (sent w)) = Inr res0"
    and "Status (seenAuthn rt d res0) = ''MFA_REQUIRED''"
    and "Factors (Embedded (seenAuthn rt d res0)) = []"
  shows "\<exists>e w' req. Authenticate rt net d n c username password mfa w = Some (Fail e, w')
           \<and> (case snd (jsonUnmarshalAuthn rt (seenBody rt d res0)) of
                 Some de \<Rightarrow> e = de
               | None \<Rightarrow> (\<exists>word. e = ErrorsNew (''MFA needed but no '' @ word @ '' available'')))
           \<and> sent w' = sent w @ [req] \<and> url req = authnURL d
           \<and> selects w' = selects w \<and> codeReads w' = codeReads w"
proof -
  from Authenticate_delivered [OF assms(1-4), of n mfa] obtain w1 req where
    p: "sent w1 = sent w @ [req]" "url req = authnURL d" "selects w1 = selects w" "codeReads w1 = codeReads w"
    and a: "Authenticate rt net d n c username password mfa w =
               (case snd (jsonUnmarshalAuthn rt (seenBody rt d res0)) of
                  Some e \<Rightarrow> Some (Fail e, w1)
                | None \<Rightarrow>
                    if Status (seenAuthn rt d res0) = ''MFA_REQUIRED'' then
                      (case chooseFactor mfa (seenAuthn rt d res0) w1 of
                         (Return factor, w2) \<Rightarrow> perform rt net d factor mfa n (StateToken (seenAuthn rt d res0)) w2
                       | (Fail e, w2) \<Rightarrow> Some (Fail e, w2)
                       | (Panic, w2) \<Rightarrow> Some (Panic, w2))
                    else if Status (seenAuthn rt d res0) \<noteq> ''SUCCESS''
                    then Some (Fail (ErrorsNew (''Status: '' @ Status (seenAuthn rt d res0))), w1)
                    else Some (Return (SessionToken (seenAuthn rt d res0)), w1))"
    by blast
  have ch: "chooseFactor mfa (seenAuthn rt d res0) w1
              = (Fail (ErrorsNew (''MFA needed but no '' @ ''factoirs'' @ '' available'')), w1)"
    using assms(6) by (simp add: chooseFactor_def)
  show ?thesis
  proof (cases "snd (jsonUnmarshalAuthn rt (seenBody rt d res0))")
    case None
    with a ch assms(5) have "Authenticate rt net d n c username password mfa w
        = Some (Fail (ErrorsNew (''MFA needed but no '' @ ''factoirs'' @ '' available'')), w1)"
      by simp
    moreover have "\<exists>word. ErrorsNew (''MFA needed but no '' @ ''factoirs'' @ '' available'')
                      = ErrorsNew (''MFA needed but no '' @ word @ '' available'')"
      by (rule exI [of _ "''factoirs''"]) (rule refl)
    ultimately show ?thesis using p None
      by (intro exI [of _ "ErrorsNew (''MFA needed but no '' @ ''factoirs'' @ '' available'')"]
          exI [of _ w1] exI [of _ req]) simp
  next
    case (Some de)
    with a have "Authenticate rt net d n c username password mfa w = Some (Fail de, w1)"
      by simp
    with p Some show ?thesis
      by (intro exI [of _ de] exI [of _ w1] exI [of _ req]) simp
  qed
qed

lemmas demo_bodies = bodyChallenge1_def bodyChallenge2_def bodySuccess_def bodyLocked_def
  bodyNoFactors_def bodyOnePush_def bodyTwoFactors_def bodyMismatch_def

lemma demo_decode:
  "jsonUnmarshalAuthn demoLib bodyChallenge1 = (authn ''MFA_CHALLENGE'' ''st1'' [] [], None)"
  "jsonUnmarshalAuthn demoLib bodySuccess = (authn ''SUCCESS'' [] ''tok'' [], None)"
  "jsonUnmarshalAuthn demoLib bodyNoFactors = (authn ''MFA_REQUIRED'' ''st0'' [] [], None)"
  "jsonUnmarshalAuthn demoLib bodyOnePush = (authn ''MFA_REQUIRED'' ''st0'' [] [pushF1], None)"
  "jsonUnmarshalAuthn demoLib bodyTwoFactors = (authn ''MFA_REQUIRED'' ''st0'' [] [pushF1, totpF2], None)"
  "jsonUnmarshalAuthn demoLib bodyMismatch = (authn ''SUCCESS'' [] ''tok'' [],
     Some (JSONError ''json: cannot unmarshal number into Go struct field oktaUserAuthn.expiresAt of type string''))"
  by (simp_all add: demoLib_def demoAuthnTable_def demo_bodies)

lemma demo_seenBody: "seenBody demoLib demoDance res = resBody res"
  by (simp add: seenBody_off demoDance_def)

lemma demo_seenAuthn: "seenAuthn demoLib demoDance res = fst (jsonUnmarshalAuthn demoLib (resBody res))"
  by (simp add: seenAuthn_def prettyResponse_off demoDance_def)

lemma demo_primary:
  "snd (jsonMarshal demoLib [(''username'', u), (''password'', p)]) = None"
  "urlParse demoLib (authnURL demoDance) = None"
  "\<not> (Caller = Caller \<and> ctxDone (always res) world0)"
  "replies (always res) (length (sent world0)) = Inr res"
  by (simp_all add: demoLib_def always_def ctxDone_def)

theorem Authenticate_no_factors_witness:
  "\<exists>e w' req. Authenticate demoLib (always \<lparr>statusCode = 200, resCookies = [], resBody = bodyNoFactors\<rparr>)
                demoDance 0 Caller ''user'' ''secret'' None world0
               = Some (Fail e, w')
           \<and> (\<exists>word. e = ErrorsNew (''MFA needed but no '' @ word @ '' available''))
           \<and> sent w' = [req] \<and> url req = ''https://example.okta.com/api/v1/authn''"
proof -
  let ?res = "\<lparr>statusCode = 200, resCookies = [], resBody = bodyNoFactors\<rparr>"
  have "\<exists>e w' req. Authenticate demoLib (always ?res) demoDance 0 Caller ''user'' ''secret'' None world0
                    = Some (Fail e, w')
           \<and> (case snd (jsonUnmarshalAuthn demoLib (seenBody demoLib demoDance ?res)) of
                 Some de \<Rightarrow> e = de
               | None \<Rightarrow> (\<exists>word. e = ErrorsNew (''MFA needed but no '' @ word @ '' available'')))
           \<and> sent w' = sent world0 @ [req] \<and> url req = authnURL demoDance
           \<and> selects w' = selects world0 \<and> codeReads w' = codeReads world0"
    by (rule Authenticate_no_factors [OF demo_primary])
      (simp_all add: demo_seenAuthn demo_decode authn_def)
  then obtain e w' req where
    "Authenticate demoLib (always ?res) demoDance 0 Caller ''user'' ''secret'' None world0
                    = Some (Fail e, w')"
    and "case snd (jsonUnmarshalAuthn demoLib (seenBody demoLib demoDance ?res)) of
                 Some de \<Rightarrow> e = de
               | None \<Rightarrow> (\<exists>word. e = ErrorsNew (''MFA needed but no '' @ word @ '' available''))"
    and "sent w' = sent world0 @ [req]" and "url req = authnURL demoDance"
    by blast
  moreover have "sent world0 = []" "authnURL demoDance = ''https://example.okta.com/api/v1/authn''"
    "snd (jsonUnmarshalAuthn demoLib (seenBody demoLib demoDance ?res)) = None"
    by (simp_all add: world0_def authnURL_def demoDance_def demo_seenBody [unfolded demoDance_def] demo_decode)
  ultimately have
    "Authenticate demoLib (always ?res) demoDance 0 Caller ''user'' ''secret'' None world0 = Some (Fail e, w')
       \<and> (\<exists>word. e = ErrorsNew (''MFA needed but no '' @ word @ '' available''))
       \<and> sent w' = [req] \<and> url req = ''https://example.okta.com/api/v1/authn''"
    by simp
  then show ?thesis by blast
qed

text \<open>
  C6 as stated names another message: on a response with status \<open>MFA_REQUIRED\<close> and no factor
  the error returned is not \<open>MFA required but no factor available\<close>.
\<close>

theorem Authenticate_no_factors_counterexample:
  "map_option fst (Authenticate demoLib (always \<lparr>statusCode = 200, resCookies = [], resBody = bodyNoFactors\<rparr>)
                     demoDance 0 Caller ''user'' ''secret'' None world0)
     = Some (Fail (ErrorsNew ''MFA needed but no factoirs available''))
   \<and> map_option fst (Authenticate demoLib (always \<lparr>statusCode = 200, resCookies = [], resBody = bodyNoFactors\<rparr>)
                     demoDance 0 Caller ''user'' ''secret'' None world0)
     \<noteq> Some (Fail (ErrorsNew ''MFA required but no factor available''))"
proof -
  let ?res = "\<lparr>statusCode = 200, resCookies = [], resBody = bodyNoFactors\<rparr>"
  from Authenticate_delivered [where username = "''user''" and password = "''secret''" and ?res0.0 = ?res
      and n = 0 and mfa = None, OF demo_primary]
  obtain w1 where "Authenticate demoLib (always ?res) demoDance 0 Caller ''user'' ''secret'' None world0
       = Some (Fail (ErrorsNew ''MFA needed but no factoirs available''), w1)"
    by (auto simp add: demo_seenBody demo_seenAuthn demo_decode authn_def chooseFactor_def)
  then show ?thesis by simp
qed

section \<open>Where the code departs from its specification\<close>

text \<open>
  C5. \<open>Authenticate\<close> with no handler (\<open>nil\<close>), on a response with status \<open>MFA_REQUIRED\<close> that
  offers two factors: \<open>mfa.Select\<close> is called on the nil interface, and the call panics
  where the claim has an error returned.
\<close>

theorem Authenticate_nil_handler_panics:
  "map_option fst (Authenticate demoLib (always \<lparr>statusCode = 200, resCookies = [], resBody = bodyTwoFactors\<rparr>)
                     demoDance (Suc (Suc 0)) Caller ''user'' ''secret'' None world0)
     = Some Panic"
proof -
  let ?res = "\<lparr>statusCode = 200, resCookies = [], resBody = bodyTwoFactors\<rparr>"
  from Authenticate_delivered [where username = "''user''" and password = "''secret''" and ?res0.0 = ?res
      and n = "Suc (Suc 0)" and mfa = None, OF demo_primary]
  obtain w1 where "Authenticate demoLib (always ?res) demoDance (Suc (Suc 0)) Caller ''user'' ''secret'' None world0
       = Some (Panic, w1)"
    by (auto simp add: demo_seenBody demo_seenAuthn demo_decode authn_def chooseFactor_def Let_def)
  then show ?thesis by simp
qed

text \<open>
  C4. A verify response whose body \<open>json.Unmarshal\<close> rejects (\<open>bodyMismatch\<close>): both loops
  drop the error of the decoder and return the session token, with no error.
\<close>

theorem perform_swallows_decode_failure:
  "snd (jsonUnmarshalAuthn demoLib bodyMismatch)
     = Some (JSONError ''json: cannot unmarshal number into Go struct field oktaUserAuthn.expiresAt of type string'')
   \<and> map_option fst (pushFactor_perform demoLib (always \<lparr>statusCode = 200, resCookies = [], resBody = bodyMismatch\<rparr>)
                       demoDance demoFactor (Suc 0) ''st0'' world0)
     = Some (Return ''tok'')
   \<and> map_option fst (inputFactor_perform demoLib (always \<lparr>statusCode = 200, resCookies = [], resBody = bodyMismatch\<rparr>)
                       demoDance demoInput (Some demoHandler) (Suc 0) ''st0'' world0)
     = Some (Return ''tok'')"
proof -
  let ?res = "\<lparr>statusCode = 200, resCookies = [], resBody = bodyMismatch\<rparr>"
  have r: "replies (always ?res) (length (sent world0)) = Inr ?res"
    by (simp add: always_def)
  have u: "\<And>f. urlParse demoLib (verifyURL demoDance (ident f)) = None"
    and m: "\<And>kvs. snd (jsonMarshal demoLib kvs) = None"
    by (simp_all add: demoLib_def)
  have "fst (pushFactor_poll demoLib (always ?res) demoDance demoFactor ''st0'' world0) = Inr (Return ''tok'')"
    using pushFactor_poll_delivered(1) [where d = demoDance and f = demoFactor and st = "''st0''", OF u m r]
    by (simp add: demo_seenAuthn demo_decode authn_def)
  then have p: "map_option fst (pushFactor_perform demoLib (always ?res) demoDance demoFactor (Suc 0) ''st0'' world0)
     = Some (Return ''tok'')"
    by (simp add: pushFactor_perform_Suc del: pushFactor_perform.simps)
  have k: "ReadCode demoHandler (length (codeReads world0)) (inputFactor demoInput) = (''000000'', None)"
    by (simp add: demoHandler_def world0_def)
  have "fst (inputFactor_poll demoLib (always ?res) demoDance demoInput (Some demoHandler) ''st0'' world0) = Inr (Return ''tok'')"
    using inputFactor_poll_delivered(1) [where d = demoDance and st = "''st0''", OF u k m r]
    by (simp add: demo_seenAuthn demo_decode authn_def)
  then have i: "map_option fst (inputFactor_perform demoLib (always ?res) demoDance demoInput (Some demoHandler) (Suc 0) ''st0'' world0)
     = Some (Return ''tok'')"
    by (simp add: inputFactor_perform_Suc del: inputFactor_perform.simps)
  from p i show ?thesis by (simp add: demo_decode)
qed

text \<open>
  C8. With the pretty-JSON option on, \<open>post\<close> hands on the body \<open>{}\<close> for a response whose
  body is \<open>Unauthorized\<close>: the error of \<open>json.Unmarshal\<close> is overwritten and the map left empty
  is encoded in place of the body.
\<close>

theorem post_rewrites_body:
  "fst (post demoLib prettyDance ''Authorize'' \<lparr>statusCode = 401, resCookies = [], resBody = ''Unauthorized''\<rparr> world0)
     = \<lparr>statusCode = 401, resCookies = [], resBody = ''{}''\<rparr>"
  by (simp add: post_fst prettyResponse_def prettyDance_def demoDance_def demoLib_def Let_def)

lemma verifyRequest_ctx: "ctx (verifyRequest rt d f buf) = Background"
  by (simp add: verifyRequest_def prettyRequest_ctx)

text \<open>
  C3. The caller's context is cancelled during the first wait of the push loop. The verify
  requests were built by \<open>http.NewRequest\<close> and never given the caller's context, so the
  loop makes the next verify call after the cancellation and returns the session token of
  its response, where the claim has a cancellation error returned.
\<close>

theorem polling_ignores_cancellation:
  "\<exists>w'. Authenticate demoLib cancelScript demoDance (Suc (Suc 0)) Caller ''user'' ''secret'' None world0
           = Some (Return ''tok'', w')
        \<and> map ctx (sent w') = [Caller, Background, Background]
        \<and> sleeps w' = 1
        \<and> ctxDone cancelScript w'"
proof -
  let ?r0 = "\<lparr>statusCode = 200, resCookies = [], resBody = bodyOnePush\<rparr>"
  let ?r1 = "\<lparr>statusCode = 200, resCookies = [], resBody = bodyChallenge1\<rparr>"
  let ?r2 = "\<lparr>statusCode = 200, resCookies = [], resBody = bodySuccess\<rparr>"
  have n: "\<not> (Caller = Caller \<and> ctxDone cancelScript world0)"
    and r0: "replies cancelScript (length (sent world0)) = Inr ?r0"
    by (simp_all add: cancelScript_def ctxDone_def world0_def reply_def)
  from Authenticate_delivered [where username = "''user''" and password = "''secret''"
      and n = "Suc (Suc 0)" and mfa = None, OF demo_primary(1,2) n r0]
  obtain w1 req where
    s1: "sent w1 = sent world0 @ [req]" and c1: "ctx req = Caller" and t1: "sleeps w1 = sleeps world0"
    and a: "Authenticate demoLib cancelScript demoDance (Suc (Suc 0)) Caller ''user'' ''secret'' None world0
            = pushFactor_perform demoLib cancelScript demoDance demoFactor (Suc (Suc 0)) ''st0'' w1"
    by (auto simp add: demo_seenBody demo_seenAuthn demo_decode authn_def chooseFactor_def
        oktaUserAuthnFactor_factor_def pushF1_def demoFactor_def simp del: pushFactor_perform.simps)
  let ?p1 = "pushFactor_poll demoLib cancelScript demoDance demoFactor ''st0'' w1"
  let ?p2 = "pushFactor_poll demoLib cancelScript demoDance demoFactor ''st1'' (snd ?p1)"
  have u: "urlParse demoLib (verifyURL demoDance (ident demoFactor)) = None"
    and m: "\<And>kvs. snd (jsonMarshal demoLib kvs) = None"
    by (simp_all add: demoLib_def)
  have "length (sent w1) = 1"
    by (simp add: s1 world0_def)
  moreover have "replies cancelScript 1 = Inr ?r1"
    by (simp add: cancelScript_def reply_def)
  ultimately have r1: "replies cancelScript (length (sent w1)) = Inr ?r1"
    by (simp only:)
  note p1 = pushFactor_poll_delivered [where st = "''st0''", OF u m r1]
  have f1: "fst ?p1 = Inl ''st1''"
    using p1(1) by (simp add: demo_seenAuthn demo_decode authn_def)
  have t2: "sleeps (snd ?p1) = 1"
    using p1(5) by (simp add: demo_seenAuthn demo_decode authn_def t1 world0_def)
  have "length (sent (snd ?p1)) = 2"
    by (simp add: p1(2) s1 world0_def)
  moreover have "replies cancelScript 2 = Inr ?r2"
    by (simp add: cancelScript_def reply_def)
  ultimately have r2: "replies cancelScript (length (sent (snd ?p1))) = Inr ?r2"
    by (simp only:)
  note p2 = pushFactor_poll_delivered [where st = "''st1''", OF u m r2]
  have f2: "fst ?p2 = Inr (Return ''tok'')"
    using p2(1) by (simp add: demo_seenAuthn demo_decode authn_def)
  have t3: "sleeps (snd ?p2) = 1"
    using p2(5) by (simp add: demo_seenAuthn demo_decode authn_def t2)
  have run: "Authenticate demoLib cancelScript demoDance (Suc (Suc 0)) Caller ''user'' ''secret'' None world0
           = Some (Return ''tok'', snd ?p2)"
    by (simp only: a pushFactor_perform_Suc f1 f2 sum.case)
  have x: "map ctx (sent (snd ?p2)) = [Caller, Background, Background]"
    by (simp add: p2(2) p1(2) s1 c1 verifyRequest_ctx world0_def)
  have "cancelAt cancelScript = Some 1"
    by (simp add: cancelScript_def)
  then have "ctxDone cancelScript (snd ?p2)"
    by (simp only: ctxDone_def t3 option.case order_refl)
  with run x t3 have
    "Authenticate demoLib cancelScript demoDance (Suc (Suc 0)) Caller ''user'' ''secret'' None world0
           = Some (Return ''tok'', snd ?p2)
        \<and> map ctx (sent (snd ?p2)) = [Caller, Background, Background]
        \<and> sleeps (snd ?p2) = 1
        \<and> ctxDone cancelScript (snd ?p2)"
    by (intro conjI)
  then show ?thesis by (rule exI)
qed

section \<open>What the loops and the hooks do not look at\<close>

lemma seenAuthn_off: "\<not> prettyJSON d \<Longrightarrow> seenAuthn rt d res = fst (jsonUnmarshalAuthn rt (resBody res))"
  by (simp add: seenAuthn_def prettyResponse_off)

text \<open>
  With the pretty-JSON option on, the body \<open>post\<close> hands on is the encoding of whatever map
  \<open>json.Unmarshal\<close> left, whether or not it reported an error.
\<close>

lemma prettyResponse_on:
  "prettyJSON d \<Longrightarrow> snd (jsonMarshalIndent rt (fst (jsonUnmarshalMap rt (resBody res)))) = None \<Longrightarrow>
     seenBody rt d res = fst (jsonMarshalIndent rt (fst (jsonUnmarshalMap rt (resBody res))))"
  by (simp add: seenBody_def prettyResponse_def Let_def)

text \<open>
  The polling loops never see the caller's context: whether and when it is cancelled makes
  no difference to them.
\<close>

lemma Do_cancelAt:
  "ctx req = Background \<Longrightarrow> Do (net\<lparr>cancelAt := k\<rparr>) req w = Do net req w"
  by (simp add: Do_def)

lemma verifyExchange_cancelAt:
  "ctx req0 = Background \<Longrightarrow>
     verifyExchange rt (net\<lparr>cancelAt := k\<rparr>) d req0 buf w = verifyExchange rt net d req0 buf w"
  by (simp add: verifyExchange_def Do_cancelAt pre_fst prettyRequest_ctx)

lemma pushFactor_poll_cancelAt:
  "pushFactor_poll rt (net\<lparr>cancelAt := k\<rparr>) d f st w = pushFactor_poll rt net d f st w"
  by (simp add: pushFactor_poll_def NewRequest_def Let_def verifyExchange_cancelAt split: option.splits)

lemma inputFactor_poll_cancelAt:
  "inputFactor_poll rt (net\<lparr>cancelAt := k\<rparr>) d f mfa st w = inputFactor_poll rt net d f mfa st w"
  by (simp add: inputFactor_poll_def NewRequest_def Let_def verifyExchange_cancelAt split: option.splits)

lemma pushFactor_perform_cancelAt:
  "pushFactor_perform rt (net\<lparr>cancelAt := k\<rparr>) d f n st w = pushFactor_perform rt net d f n st w"
  by (induction n arbitrary: st w) (simp_all add: pushFactor_poll_cancelAt split: prod.splits sum.splits)

lemma inputFactor_perform_cancelAt:
  "inputFactor_perform rt (net\<lparr>cancelAt := k\<rparr>) d f mfa n st w = inputFactor_perform rt net d f mfa n st w"
  by (induction n arbitrary: st w) (simp_all add: inputFactor_poll_cancelAt split: prod.splits sum.splits)

text \<open>
  Nor do they see the error of the decoder: a library that decodes the same values and never
  reports an error gives the same runs.
\<close>

lemma silentDecoder_lib:
  "fst (jsonUnmarshalAuthn (silentDecoder rt) b) = fst (jsonUnmarshalAuthn rt b)"
  "urlParse (silentDecoder rt) = urlParse rt"
  "jsonMarshal (silentDecoder rt) = jsonMarshal rt"
  "jsonMarshalIndent (silentDecoder rt) = jsonMarshalIndent rt"
  "jsonUnmarshalMap (silentDecoder rt) = jsonUnmarshalMap rt"
  "dumpRequest (silentDecoder rt) = dumpRequest rt"
  "dumpResponse (silentDecoder rt) = dumpResponse rt"
  by (simp_all add: silentDecoder_def)

lemma silentDecoder_hooks:
  "pre (silentDecoder rt) d n req w = pre rt d n req w"
  "post (silentDecoder rt) d n res w = post rt d n res w"
  unfolding pre_def post_def prettyRequest_def prettyResponse_def silentDecoder_lib
  by (rule refl)+

lemma verifyExchange_silentDecoder:
  "verifyExchange (silentDecoder rt) net d req0 buf w = verifyExchange rt net d req0 buf w"
  by (simp add: verifyExchange_def silentDecoder_hooks silentDecoder_lib Let_def split: sum.splits)

lemma pushFactor_poll_silentDecoder:
  "pushFactor_poll (silentDecoder rt) net d f st w = pushFactor_poll rt net d f st w"
  by (simp add: pushFactor_poll_def NewRequest_def verifyExchange_silentDecoder silentDecoder_lib Let_def
      split: option.splits)

lemma inputFactor_poll_silentDecoder:
  "inputFactor_poll (silentDecoder rt) net d f mfa st w = inputFactor_poll rt net d f mfa st w"
  by (simp add: inputFactor_poll_def NewRequest_def verifyExchange_silentDecoder silentDecoder_lib Let_def
      split: option.splits)

lemma pushFactor_perform_silentDecoder:
  "pushFactor_perform (silentDecoder rt) net d f n st w = pushFactor_perform rt net d f n st w"
  by (induction n arbitrary: st w) (simp_all add: pushFactor_poll_silentDecoder split: prod.splits sum.splits)

lemma inputFactor_perform_silentDecoder:
  "inputFactor_perform (silentDecoder rt) net d f mfa n st w = inputFactor_perform rt net d f mfa n st w"
  by (induction n arbitrary: st w) (simp_all add: inputFactor_poll_silentDecoder split: prod.splits sum.splits)

text \<open>
  The choice among two factors or more: no handler, a handler that fails, a handler that
  returns no factor. No request is made by the choice.
\<close>

lemma chooseFactor_many:
  assumes "Factors (Embedded ar) = x # y # zs"
  shows "chooseFactor None ar w = (Panic, w)"
    and "snd (Select m (oktaUserAuthnEmbedded_factors (Embedded ar))) = Some e \<Longrightarrow>
           fst (chooseFactor (Some m) ar w) = Fail (Errorf ''error selecting MFA factor'' e)"
    and "Select m (oktaUserAuthnEmbedded_factors (Embedded ar)) = (None, None) \<Longrightarrow>
           fst (chooseFactor (Some m) ar w) = Fail (ErrorsNew ''no MFA was factor selected'')"
    and "sent (snd (chooseFactor mfa ar w)) = sent w"
  using assms by (simp_all add: chooseFactor_def Let_def split: option.splits)

end
